theory Spec2Isabelle
  imports Complex_Main
begin

section \<open>The agent physics model (modules/sprite.py)\<close>

text \<open>
  Python floats are modelled as reals: the properties below are about comparisons, signs and
  the order of updates, not about rounding. Two-element numpy arrays are pairs.
\<close>

type_synonym vec2 = "real \<times> real"

definition vadd :: "vec2 \<Rightarrow> vec2 \<Rightarrow> vec2" where
  "vadd a b = (fst a + fst b, snd a + snd b)"

definition vsub :: "vec2 \<Rightarrow> vec2 \<Rightarrow> vec2" where
  "vsub a b = (fst a - fst b, snd a - snd b)"

definition vscale :: "vec2 \<Rightarrow> real \<Rightarrow> vec2" where
  "vscale a k = (fst a * k, snd a * k)"

definition SPRITE_SIZE :: "vec2" where
  "SPRITE_SIZE = (25, 25)"

definition MAX_VELOCITY :: real where
  "MAX_VELOCITY = 3.45"

definition MIN_VELOCITY :: real where
  "MIN_VELOCITY = - 1.92"

definition acceleration :: real where
  "acceleration = 0.025"

definition steering :: real where
  "steering = 0.037"

record sprite =
  position :: vec2
  rotation :: real
  offset :: vec2
  velocity :: real
  car_size_offset :: vec2

text \<open>
  \<open>Sprite.__init__\<close> followed by \<open>Sprite.initialize\<close>: the texture is scaled to
  \<open>SPRITE_SIZE\<close>, so \<open>car_size_offset\<close> is half of it.
\<close>

definition Sprite_init :: "vec2 \<Rightarrow> real \<Rightarrow> vec2 \<Rightarrow> sprite" where
  "Sprite_init pos rot off =
     \<lparr>position = pos, rotation = rot, offset = off, velocity = 0,
      car_size_offset = (fst SPRITE_SIZE / 2, snd SPRITE_SIZE / 2)\<rparr>"

definition movement :: "real \<Rightarrow> sprite \<Rightarrow> sprite" where
  "movement a s =
     (let s1 = s\<lparr>velocity := velocity s + a\<rparr>
      in if velocity s1 > MAX_VELOCITY then s1\<lparr>velocity := MAX_VELOCITY\<rparr>
         else if velocity s1 < MIN_VELOCITY then s1\<lparr>velocity := MIN_VELOCITY\<rparr>
         else s1)"

definition act :: "real \<Rightarrow> sprite \<Rightarrow> sprite" where
  "act scaling s =
     (let direction = (cos (rotation s), - sin (rotation s))
      in s\<lparr>position := vadd (position s) (vscale (vscale direction (velocity s)) scaling)\<rparr>)"

text \<open>
  The two deltas that \<open>act_actions\<close> accumulates before it applies them (the four
  membership tests of the source, in their order).
\<close>

definition act_actions_deltas :: "int \<Rightarrow> real \<times> real" where
  "act_actions_deltas action =
     (let motion0 = 0; steering0 = 0;
          motion1 = (if action \<in> set [0, 4, 5] then motion0 + acceleration else motion0);
          motion2 = (if action \<in> set [1, 6, 7] then motion1 - acceleration else motion1);
          steering1 = (if action \<in> set [3, 5, 7] then steering0 - steering else steering0);
          steering2 = (if action \<in> set [2, 4, 6] then steering1 + steering else steering1)
      in (motion2, steering2))"

definition act_actions :: "int option \<Rightarrow> sprite \<Rightarrow> sprite" where
  "act_actions action s =
     (case action of
        None \<Rightarrow> s
      | Some a \<Rightarrow>
          (let (motion, steer_delta) = act_actions_deltas a;
               s1 = movement motion s
           in s1\<lparr>rotation := rotation s1 + steer_delta\<rparr>))"

definition reset :: "sprite \<Rightarrow> sprite" where
  "reset s = s\<lparr>velocity := 0, rotation := 0\<rparr>"

definition get_position :: "sprite \<Rightarrow> vec2" where
  "get_position s = vsub (vadd (position s) (offset s)) (car_size_offset s)"

text \<open>
  Modelled from the spec: \<open>Sprite.steer\<close> is called by \<open>Env.event_handler\<close> but is not
  defined in sprite.py; the spec gives it as \<open>rotation += delta\<close>, unclamped.
\<close>

definition steer :: "real \<Rightarrow> sprite \<Rightarrow> sprite" where
  "steer delta s = s\<lparr>rotation := rotation s + delta\<rparr>"

text \<open>The operations of the physics model, to speak about every reachable sprite state.\<close>

datatype sprite_op =
    Movement real
  | Act real
  | ActActions "int option"
  | Reset
  | Steer real

fun sprite_apply :: "sprite_op \<Rightarrow> sprite \<Rightarrow> sprite" where
  "sprite_apply (Movement a) s = movement a s"
| "sprite_apply (Act k) s = act k s"
| "sprite_apply (ActActions a) s = act_actions a s"
| "sprite_apply Reset s = reset s"
| "sprite_apply (Steer d) s = steer d s"

fun sprite_run :: "sprite_op list \<Rightarrow> sprite \<Rightarrow> sprite" where
  "sprite_run [] s = s"
| "sprite_run (x # xs) s = sprite_run xs (sprite_apply x s)"

definition velocity_in_bounds :: "sprite \<Rightarrow> bool" where
  "velocity_in_bounds s = (MIN_VELOCITY \<le> velocity s \<and> velocity s \<le> MAX_VELOCITY)"

section \<open>The observation pipeline (create_snapshot in modules/env.py)\<close>

datatype py_error = TypeError | AttributeError | ZeroDivisionError | NotImplementedError

type_synonym colour = "nat \<times> nat \<times> nat"

definition SIZE :: "int \<times> int" where
  "SIZE = (500, 500)"

definition FPS_CAP :: real where
  "FPS_CAP = 60.0"

definition CLEAR_SCREEN :: colour where
  "CLEAR_SCREEN = (255, 255, 255)"

text \<open>
  The Track collaborator (track.py) is not among the sources. Its state is the sprite it owns
  and an opaque world; its operations are parameters of the environment model.
\<close>

record 'w track =
  sprite :: sprite
  world :: 'w

text \<open>
  A pygame surface is the sequence of drawing calls made on it: a fill with a colour, or a
  rendering of the track in the state it had then.
\<close>

datatype 'w draw = Fill colour | Render "'w track"

type_synonym 'w surface = "'w draw list"

datatype image_mode = RGB | L

text \<open>
  An image is described by what it was captured from, the crop box \<open>(left, upper, right,
  lower)\<close> passed to \<open>Image.crop\<close> (if any) and its mode; pixel values are not modelled.
\<close>

record 'w image =
  pixels :: "'w surface"
  crop_box :: "(int \<times> int \<times> int \<times> int) option"
  mode :: image_mode

datatype layout = Transposed | Unsqueezed

datatype 'w array =
    Raw_image "'w image"
  | Raw_image_tensor "'w image" layout bool

datatype 'w snapshot = Image "'w image" | Pair "'w array" "'w image"

text \<open>\<open>ndarray.astype(int)\<close> and Python's \<open>int()\<close> on a float: truncation towards zero.\<close>

definition astype_int :: "real \<Rightarrow> int" where
  "astype_int x = (if 0 \<le> x then \<lfloor>x\<rfloor> else \<lceil>x\<rceil>)"

text \<open>Lines 45 to 48 of create_snapshot: the box handed to \<open>Image.crop\<close>.\<close>

definition crop_region :: "int \<times> int \<Rightarrow> vec2 \<Rightarrow> int \<times> int \<times> int \<times> int" where
  "crop_region fsize center =
     (let lu = (max (astype_int (fst center - real_of_int (fst fsize) / 2)) 0,
                max (astype_int (snd center - real_of_int (snd fsize) / 2)) 0);
          rl = (fst lu + fst fsize, snd lu + snd fsize)
      in (fst lu, snd lu, fst rl, snd rl))"

text \<open>
  \<open>create_snapshot\<close> returns its value and the file it wrote (name, format, image), if it
  saved one.
\<close>

definition create_snapshot ::
  "'w surface \<Rightarrow> (int \<times> int) option \<Rightarrow> vec2 option \<Rightarrow> string \<Rightarrow> string \<Rightarrow> bool \<Rightarrow> bool \<Rightarrow> bool
     \<Rightarrow> bool \<Rightarrow> bool \<Rightarrow> 'w snapshot \<times> (string \<times> string \<times> 'w image) option" where
  "create_snapshot surf fsize center filename format save raw normalize' tensor grayscale =
     (let image0 = \<lparr>pixels = surf, crop_box = None, mode = RGB\<rparr>;
          image1 = (case fsize of
                      None \<Rightarrow> image0
                    | Some sz \<Rightarrow>
                        (case center of
                           None \<Rightarrow> image0
                         | Some c \<Rightarrow> image0\<lparr>crop_box := Some (crop_region sz c)\<rparr>));
          image2 = (if grayscale then image1\<lparr>mode := L\<rparr> else image1);
          written = (if save then Some (''./snapshots/'' @ filename, format, image2) else None)
      in if raw then
           (if tensor then
              (let lay = (if \<not> grayscale \<or> mode image2 \<noteq> L then Transposed else Unsqueezed)
               in (Pair (Raw_image_tensor image2 lay normalize') image2, written))
            else (Pair (Raw_image image2) image2, written))
         else (Image image2, written))"

text \<open>The canvas is \<open>SIZE\<close>: a box lies within it when it passes none of the four edges.\<close>

definition within_canvas :: "int \<times> int \<times> int \<times> int \<Rightarrow> bool" where
  "within_canvas box =
     (case box of (left, upper, right, lower) \<Rightarrow>
        0 \<le> left \<and> 0 \<le> upper \<and> right \<le> fst SIZE \<and> lower \<le> snd SIZE)"

section \<open>The racing environment (class Env in modules/env.py)\<close>

text \<open>
  Modelled from the spec: the telemetry of the Track collaborator (track.py is not among the
  sources), a record with an alive flag, a progress percentage and a lap count.
\<close>

record params =
  alive :: bool
  progress :: real
  lap :: int

text \<open>
  The operations of the Track collaborator that the environment calls. \<open>reset_track\<close> takes
  its two flags when the caller passes them (\<open>None\<close> for an omitted argument). The source
  calls \<open>track.sprite.act_action\<close>, a name that sprite.py does not define, so it is an
  operation of the collaborator that may raise.
\<close>

record 'w track_ops =
  act_op :: "real \<Rightarrow> 'w track \<Rightarrow> 'w track"
  get_params_op :: "'w track \<Rightarrow> params"
  reset_track_op :: "bool option \<Rightarrow> bool option \<Rightarrow> 'w track \<Rightarrow> 'w track"
  act_action_op :: "int \<Rightarrow> sprite \<Rightarrow> py_error + sprite"

datatype key = K_UP | K_DOWN | K_LEFT | K_RIGHT | K_ESCAPE | K_PRINT | K_r | K_other

datatype event = QUIT | KEYDOWN key | Other_event

text \<open>
  What pygame reports during one step: the keys held down, the event queue and the
  millisecond counter \<open>pygame.time.get_ticks()\<close>.
\<close>

record inputs =
  pressed :: "key set"
  events :: "event list"
  ticks :: int

record 'w env =
  env_done :: bool
  env_exit :: bool
  attenuation :: real
  frame_size :: "int \<times> int"
  frame_buffer :: bool
  agent_active :: bool
  surface :: "'w surface"
  displayed :: "'w surface"
  track :: "'w track"
  prev_time :: "int option"
  curr_time :: "int option"
  saved :: "(string \<times> string \<times> 'w image) list"

definition BaseEnv_ENV_ACTION_SPACE :: int where
  "BaseEnv_ENV_ACTION_SPACE = - 1"

definition Env_ENV_ACTION_SPACE :: int where
  "Env_ENV_ACTION_SPACE = 4"

definition Baseline_ENV_ACTION_SPACE :: int where
  "Baseline_ENV_ACTION_SPACE = 2"

text \<open>
  \<open>Env.__init__\<close>, given the track as the collaborator initialised it and the reading of
  the millisecond counter. The clock and \<open>prev_time\<close> exist only when the agent is not
  active.
\<close>

definition Env_init :: "int \<times> int \<Rightarrow> bool \<Rightarrow> bool \<Rightarrow> 'w track \<Rightarrow> int \<Rightarrow> 'w env" where
  "Env_init fsize fbuffer agent track0 now =
     \<lparr>env_done = False, env_exit = False, attenuation = 1.0, frame_size = fsize,
      frame_buffer = fbuffer, agent_active = agent, surface = [], displayed = [],
      track = track0, prev_time = (if \<not> agent then Some now else None), curr_time = None,
      saved = []\<rparr>"

type_synonym 'w observation = "'w array option \<times> 'w image option \<times> params option"

text \<open>
  \<open>Env.state\<close>. The last statement is \<open>self.done = self.done or not params["alive"]\<close>:
  when \<open>done\<close> is already set the right operand is not evaluated; otherwise \<open>params\<close> is
  subscripted, which raises TypeError when it is \<open>None\<close>.
\<close>

definition Env_state ::
  "'w track_ops \<Rightarrow> bool \<Rightarrow> bool \<Rightarrow> 'w env \<Rightarrow> (py_error + 'w observation) \<times> 'w env" where
  "Env_state ops frame_active params_active e =
     (let captured =
            (if frame_active then
               (let sprite_pos = get_position (sprite (track e))
                in case fst (create_snapshot (surface e) (Some (frame_size e)) (Some sprite_pos)
                               ''screen.png'' ''PNG'' False True True True True) of
                     Pair frame img \<Rightarrow> Inr (Some frame, Some img)
                   | Image _ \<Rightarrow> Inl TypeError)
             else Inr (None, None))
      in case captured of
           Inl err \<Rightarrow> (Inl err, e)
         | Inr (frame, img) \<Rightarrow>
             (let ps = (if params_active then Some (get_params_op ops (track e)) else None)
              in if env_done e then (Inr (frame, img, ps), e)
                 else (case ps of
                         None \<Rightarrow> (Inl TypeError, e)
                       | Some p \<Rightarrow> (Inr (frame, img, ps), e\<lparr>env_done := \<not> alive p\<rparr>))))"

fun handle_event :: "'w track_ops \<Rightarrow> 'w env \<Rightarrow> event \<Rightarrow> 'w env" where
  "handle_event ops e QUIT = e\<lparr>env_exit := True\<rparr>"
| "handle_event ops e (KEYDOWN k) =
     (if k = K_ESCAPE then e\<lparr>env_exit := True\<rparr>
      else if k = K_PRINT then
        (case snd (create_snapshot (surface e) None None ''screen.png'' ''PNG'' True False False
                     False False) of
           None \<Rightarrow> e
         | Some file \<Rightarrow> e\<lparr>saved := saved e @ [file]\<rparr>)
      else if k = K_r then e\<lparr>track := reset_track_op ops None None (track e)\<rparr>
      else e)"
| "handle_event ops e Other_event = e"

text \<open>The continuous key presses of \<open>event_handler\<close>, applied to the sprite.\<close>

definition key_controls :: "key set \<Rightarrow> real \<Rightarrow> sprite \<Rightarrow> sprite" where
  "key_controls keys att s =
     (let s1 = (if K_UP \<in> keys then movement (acceleration * att) s
                else if K_DOWN \<in> keys then movement (- acceleration * att) s
                else s)
      in if K_LEFT \<in> keys then steer (steering * att) s1
         else if K_RIGHT \<in> keys then steer (- steering * att) s1
         else s1)"

definition event_handler :: "'w track_ops \<Rightarrow> inputs \<Rightarrow> 'w env \<Rightarrow> 'w env" where
  "event_handler ops inp e =
     (if \<not> frame_buffer e then
        (let e1 = (if \<not> agent_active e
                   then e\<lparr>track := (track e)\<lparr>sprite :=
                            key_controls (pressed inp) (attenuation e) (sprite (track e))\<rparr>\<rparr>
                   else e)
         in foldl (handle_event ops) e1 (events inp))
      else e)"

text \<open>
  \<open>Env.step\<close> (its \<open>device\<close> argument is never used and is left out). The value is
  \<open>(None, False)\<close>: no reward and a false done flag. With
  \<open>sync\<close>, \<open>curr_time\<close> is assigned first and \<open>prev_time\<close> is read next, which raises
  AttributeError in an environment constructed with the agent active.
\<close>

definition Env_step ::
  "'w track_ops \<Rightarrow> int option \<Rightarrow> bool \<Rightarrow> inputs \<Rightarrow> 'w env
     \<Rightarrow> (py_error + (real option \<times> bool)) \<times> 'w env" where
  "Env_step ops action sync inp e =
     (let e1 = event_handler ops inp e;
          e2 = e1\<lparr>surface := surface e1 @ [Fill CLEAR_SCREEN]\<rparr>;
          acted = (case action of
                     None \<Rightarrow> Inr e2
                   | Some a \<Rightarrow>
                       (case act_action_op ops a (sprite (track e2)) of
                          Inl err \<Rightarrow> Inl err
                        | Inr s \<Rightarrow> Inr (e2\<lparr>track := (track e2)\<lparr>sprite := s\<rparr>\<rparr>)))
      in case acted of
           Inl err \<Rightarrow> (Inl err, e2)
         | Inr e3 \<Rightarrow>
             (let e4 = e3\<lparr>track := act_op ops (attenuation e3) (track e3)\<rparr>;
                  e5 = e4\<lparr>surface := surface e4 @ [Render (track e4)]\<rparr>;
                  e6 = (if \<not> frame_buffer e5 then e5\<lparr>displayed := surface e5\<rparr> else e5)
              in if sync then
                   (let e7 = e6\<lparr>curr_time := Some (ticks inp)\<rparr>
                    in case prev_time e7 of
                         None \<Rightarrow> (Inl AttributeError, e7)
                       | Some p \<Rightarrow>
                           (Inr (None, False),
                            e7\<lparr>attenuation := real_of_int (ticks inp - p) / (1000 / FPS_CAP),
                               prev_time := Some (ticks inp)\<rparr>))
                 else (Inr (None, False), e6)))"

definition Env_reset ::
  "'w track_ops \<Rightarrow> bool \<Rightarrow> bool \<Rightarrow> 'w env \<Rightarrow> (py_error + unit) \<times> 'w env" where
  "Env_reset ops random_reset hard_reset e =
     (Inr (), e\<lparr>track := reset_track_op ops (Some random_reset) (Some hard_reset) (track e)\<rparr>)"

text \<open>The calls a training loop makes on a racing environment, and a run of them.\<close>

datatype env_call =
    Call_state bool bool
  | Call_step "int option" bool inputs
  | Call_reset bool bool

fun env_apply :: "'w track_ops \<Rightarrow> env_call \<Rightarrow> 'w env \<Rightarrow> 'w env" where
  "env_apply ops (Call_state fa pa) e = snd (Env_state ops fa pa e)"
| "env_apply ops (Call_step a sync inp) e = snd (Env_step ops a sync inp e)"
| "env_apply ops (Call_reset rr hr) e = snd (Env_reset ops rr hr e)"

fun env_run :: "'w track_ops \<Rightarrow> env_call list \<Rightarrow> 'w env \<Rightarrow> 'w env" where
  "env_run ops [] e = e"
| "env_run ops (c # cs) e = env_run ops cs (env_apply ops c e)"

section \<open>The baseline environment (class Baseline in modules/env.py)\<close>

text \<open>
  The wrapped gym simulator is an external library: its state is opaque, and the operations
  and attributes that \<open>Baseline\<close> uses are parameters. \<open>gym_step\<close> gives the new simulator
  state, the reward and the done flag; \<open>gym_cart_x\<close> is \<open>env.state[0]\<close>.
\<close>

record 'g gym_ops =
  gym_step :: "int \<Rightarrow> 'g \<Rightarrow> 'g \<times> real \<times> bool"
  gym_reset :: "'g \<Rightarrow> 'g"
  gym_x_threshold :: "'g \<Rightarrow> real"
  gym_cart_x :: "'g \<Rightarrow> real"

record 'g baseline =
  bl_done :: bool
  bl_exit :: bool
  bl_env :: 'g
  bl_frame_size :: "int \<times> int"

definition screen_width :: int where
  "screen_width = 600"

datatype slice = Slice "int option" "int option"

text \<open>
  The frame of the baseline: the rendering of the simulator in its current state, the row and
  column slices applied to it and the size the resizer scales it to.
\<close>

record 'g baseline_frame =
  rendered :: 'g
  rows :: slice
  cols :: slice
  resized_to :: "int \<times> int"

definition Baseline_init :: "'g gym_ops \<Rightarrow> int \<times> int \<Rightarrow> 'g \<Rightarrow> 'g baseline" where
  "Baseline_init g fsize made =
     \<lparr>bl_done = False, bl_exit = False, bl_env = gym_reset g made, bl_frame_size = fsize\<rparr>"

definition get_cart_location :: "'g gym_ops \<Rightarrow> 'g baseline \<Rightarrow> py_error + int" where
  "get_cart_location g b =
     (let world_width = gym_x_threshold g (bl_env b) * 2
      in if world_width = 0 then Inl ZeroDivisionError
         else (let scale = real_of_int screen_width / world_width
               in Inr (astype_int (gym_cart_x g (bl_env b) * scale
                                   + real_of_int screen_width / 2.0))))"

type_synonym 'g baseline_observation = "'g baseline_frame option \<times> unit option \<times> unit option"

definition Baseline_state ::
  "'g gym_ops \<Rightarrow> bool \<Rightarrow> bool \<Rightarrow> 'g baseline
     \<Rightarrow> (py_error + 'g baseline_observation) \<times> 'g baseline" where
  "Baseline_state g frame_active params_active b =
     (let screen = bl_env b;
          view_width = 320
      in case get_cart_location g b of
           Inl err \<Rightarrow> (Inl err, b)
         | Inr cart_location \<Rightarrow>
             (let slice_range =
                    (if cart_location < view_width div 2 then Slice None (Some view_width)
                     else if cart_location > screen_width - view_width div 2
                     then Slice (Some (- view_width)) None
                     else Slice (Some (cart_location - view_width div 2))
                                (Some (cart_location + view_width div 2)));
                  frame = \<lparr>rendered = screen, rows = Slice (Some 160) (Some 320),
                           cols = slice_range, resized_to = bl_frame_size b\<rparr>
              in (Inr (Some frame, None, None), b)))"

text \<open>
  \<open>Baseline.step\<close>: the reward is returned with the device it was moved to (a name here).
\<close>

definition Baseline_step ::
  "'g gym_ops \<Rightarrow> int option \<Rightarrow> bool \<Rightarrow> string option \<Rightarrow> 'g baseline
     \<Rightarrow> (py_error + ((real \<times> string option) option \<times> bool)) \<times> 'g baseline" where
  "Baseline_step g action sync device b =
     (case action of
        None \<Rightarrow> (Inr (None, False), b)
      | Some a \<Rightarrow>
          (case gym_step g a (bl_env b) of
             (env', reward, dn) \<Rightarrow> (Inr (Some (reward, device), dn), b\<lparr>bl_env := env'\<rparr>)))"

definition Baseline_reset ::
  "'g gym_ops \<Rightarrow> bool \<Rightarrow> bool \<Rightarrow> 'g baseline \<Rightarrow> (py_error + unit) \<times> 'g baseline" where
  "Baseline_reset g random_reset hard_reset b = (Inr (), b\<lparr>bl_env := gym_reset g (bl_env b)\<rparr>)"

section \<open>Action ids\<close>

text \<open>
  The decode table of \<open>act_actions\<close> is its four lists: an id is in the table when one of
  them holds it.
\<close>

definition in_decode_table :: "int \<Rightarrow> bool" where
  "in_decode_table action =
     (action \<in> set [0, 4, 5] \<or> action \<in> set [1, 6, 7]
      \<or> action \<in> set [3, 5, 7] \<or> action \<in> set [2, 4, 6])"

text \<open>
  Following the spec's words: an action id is validated against a declared action-space size
  \<open>n\<close> by \<open>0 \<le> id < n\<close>. No function of the sources performs this check.
\<close>

definition valid_action_id :: "int \<Rightarrow> int \<Rightarrow> bool" where
  "valid_action_id n action = (0 \<le> action \<and> action < n)"

section \<open>Sample collaborators for concrete evaluation\<close>

text \<open>
  A track whose world is its alive flag: advancing it integrates the sprite, its telemetry
  reports the flag, a reset revives it and resets the sprite, and \<open>act_action\<close> is
  \<open>act_actions\<close>.
\<close>

definition sample_ops :: "bool track_ops" where
  "sample_ops =
     \<lparr>act_op = (\<lambda>k t. t\<lparr>sprite := act k (sprite t)\<rparr>),
      get_params_op = (\<lambda>t. \<lparr>alive = world t, progress = 0, lap = 0\<rparr>),
      reset_track_op = (\<lambda>rr hr t. \<lparr>sprite = reset (sprite t), world = True\<rparr>),
      act_action_op = (\<lambda>a s. Inr (act_actions (Some a) s))\<rparr>"

definition sample_track :: "bool \<Rightarrow> bool track" where
  "sample_track live = \<lparr>sprite = Sprite_init (250, 250) 0 (0, 0), world = live\<rparr>"

definition no_input :: "int \<Rightarrow> inputs" where
  "no_input now = \<lparr>pressed = {}, events = [], ticks = now\<rparr>"

text \<open>A simulator that counts the steps it has taken, with the cart at the centre.\<close>

definition counting_sim :: "nat gym_ops" where
  "counting_sim =
     \<lparr>gym_step = (\<lambda>a n. (Suc n, 1, False)),
      gym_reset = (\<lambda>n. 0),
      gym_x_threshold = (\<lambda>n. 2.4),
      gym_cart_x = (\<lambda>n. 0)\<rparr>"

section \<open>Velocity bounds\<close>

lemma movement_in_bounds: "velocity_in_bounds (movement a s)"
  by (simp add: movement_def velocity_in_bounds_def Let_def MIN_VELOCITY_def MAX_VELOCITY_def)

lemma sprite_apply_in_bounds:
  "velocity_in_bounds s \<Longrightarrow> velocity_in_bounds (sprite_apply x s)"
proof (cases x)
  case (Movement a)
  then show ?thesis by (simp add: movement_in_bounds)
next
  case (Act k)
  assume "velocity_in_bounds s"
  with Act show ?thesis by (simp add: act_def velocity_in_bounds_def Let_def)
next
  case (ActActions a)
  assume b: "velocity_in_bounds s"
  show ?thesis
  proof (cases a)
    case None
    with ActActions b show ?thesis by (simp add: act_actions_def)
  next
    case (Some i)
    have "velocity_in_bounds (movement (fst (act_actions_deltas i)) s)"
      by (rule movement_in_bounds)
    with ActActions Some show ?thesis
      by (simp add: act_actions_def velocity_in_bounds_def Let_def case_prod_beta)
  qed
next
  case Reset
  then show ?thesis
    by (simp add: reset_def velocity_in_bounds_def MIN_VELOCITY_def MAX_VELOCITY_def)
next
  case (Steer d)
  assume "velocity_in_bounds s"
  with Steer show ?thesis by (simp add: steer_def velocity_in_bounds_def)
qed

lemma sprite_run_in_bounds:
  "velocity_in_bounds s \<Longrightarrow> velocity_in_bounds (sprite_run xs s)"
  by (induction xs arbitrary: s) (simp_all add: sprite_apply_in_bounds)

lemma Sprite_init_in_bounds: "velocity_in_bounds (Sprite_init pos rot off)"
  by (simp add: Sprite_init_def velocity_in_bounds_def MIN_VELOCITY_def MAX_VELOCITY_def)

text \<open>
  Claim C9. The velocity of the agent physics model always lies within
  \<open>[MIN_VELOCITY, MAX_VELOCITY]\<close>: a sprite is constructed with velocity 0, a movement by
  any delta (whatever its size or sign, from any sprite) leaves the velocity inside the bounds,
  and so does every sequence of sprite operations (movement, integration, action decode,
  reset, steer) run from construction.
\<close>

theorem velocity_always_in_bounds:
  "velocity (Sprite_init pos rot off) = 0
   \<and> MIN_VELOCITY \<le> velocity (movement a s) \<and> velocity (movement a s) \<le> MAX_VELOCITY
   \<and> MIN_VELOCITY \<le> velocity (sprite_run xs (Sprite_init pos rot off))
   \<and> velocity (sprite_run xs (Sprite_init pos rot off)) \<le> MAX_VELOCITY"
proof -
  have "velocity_in_bounds (sprite_run xs (Sprite_init pos rot off))"
    by (rule sprite_run_in_bounds [OF Sprite_init_in_bounds])
  moreover have "velocity_in_bounds (movement a s)"
    by (rule movement_in_bounds)
  ultimately show ?thesis
    by (simp add: velocity_in_bounds_def Sprite_init_def)
qed

section \<open>Action decoding\<close>

lemma deltas_table:
  "act_actions_deltas 0 = (acceleration, 0)"
  "act_actions_deltas 1 = (- acceleration, 0)"
  "act_actions_deltas 2 = (0, steering)"
  "act_actions_deltas 3 = (0, - steering)"
  "act_actions_deltas 4 = (acceleration, steering)"
  "act_actions_deltas 5 = (acceleration, - steering)"
  "act_actions_deltas 6 = (- acceleration, steering)"
  "act_actions_deltas 7 = (- acceleration, - steering)"
  by (simp_all add: act_actions_deltas_def)

lemma deltas_outside: "\<not> in_decode_table a \<Longrightarrow> act_actions_deltas a = (0, 0)"
  by (simp add: in_decode_table_def act_actions_deltas_def)

lemma in_decode_table_range: "in_decode_table a \<longleftrightarrow> 0 \<le> a \<and> a \<le> 7"
  unfolding in_decode_table_def by (simp; arith)

lemma movement_zero: "velocity_in_bounds s \<Longrightarrow> movement 0 s = s"
  by (simp add: movement_def velocity_in_bounds_def Let_def)

lemma movement_velocity:
  "velocity (movement d s) = max MIN_VELOCITY (min MAX_VELOCITY (velocity s + d))"
  by (simp add: movement_def Let_def MIN_VELOCITY_def MAX_VELOCITY_def)

lemma act_actions_rotation:
  "rotation (act_actions (Some a) s) = rotation s + snd (act_actions_deltas a)"
  by (simp add: act_actions_def case_prod_beta movement_def Let_def)

lemma act_actions_velocity:
  "velocity (act_actions (Some a) s)
     = max MIN_VELOCITY (min MAX_VELOCITY (velocity s + fst (act_actions_deltas a)))"
  by (simp add: act_actions_def case_prod_beta Let_def movement_velocity)

lemma key_controls_rotation:
  "rotation (key_controls {K_LEFT} att s) = rotation s + steering * att"
  "rotation (key_controls {K_RIGHT} att s) = rotation s - steering * att"
  by (simp_all add: key_controls_def steer_def)

text \<open>
  Claim C7, as amended. From every sprite state, \<open>act_actions\<close> adds the steering delta of
  the id to the rotation and the motion delta to the velocity (clamped), and the eight ids
  decode to: 0 accelerate, 1 decelerate, 2 \<open>+steering\<close>, 3 \<open>-steering\<close>, 4 accelerate with
  \<open>+steering\<close>, 5 accelerate with \<open>-steering\<close>, 6 decelerate with \<open>+steering\<close>,
  7 decelerate with \<open>-steering\<close>. In the manual controls the left key steers by
  \<open>+steering\<close> and the right key by \<open>-steering\<close> (times the attenuation): positive steering
  is steer-left, and accelerate with steer-right is id 5, \<open>(+acceleration, -steering)\<close>.
\<close>

theorem action_decode_table:
  "rotation (act_actions (Some a) s) = rotation s + snd (act_actions_deltas a)
   \<and> velocity (act_actions (Some a) s)
       = max MIN_VELOCITY (min MAX_VELOCITY (velocity s + fst (act_actions_deltas a)))
   \<and> act_actions_deltas 0 = (acceleration, 0)
   \<and> act_actions_deltas 1 = (- acceleration, 0)
   \<and> act_actions_deltas 2 = (0, steering)
   \<and> act_actions_deltas 3 = (0, - steering)
   \<and> act_actions_deltas 4 = (acceleration, steering)
   \<and> act_actions_deltas 5 = (acceleration, - steering)
   \<and> act_actions_deltas 6 = (- acceleration, steering)
   \<and> act_actions_deltas 7 = (- acceleration, - steering)
   \<and> rotation (key_controls {K_LEFT} att s) = rotation s + steering * att
   \<and> rotation (key_controls {K_RIGHT} att s) = rotation s - steering * att"
  by (simp only: deltas_table act_actions_rotation act_actions_velocity key_controls_rotation
        simp_thms)

text \<open>
  Claim C7 as stated fails: holding the up and right keys for one nominal frame is exactly
  action id 5, whose steering delta is \<open>-steering\<close>, and differs from action id 4, the id
  that decodes to \<open>(+acceleration, +steering)\<close>.
\<close>

theorem accelerate_steer_right_counterexample:
  "key_controls {K_UP, K_RIGHT} 1 (Sprite_init (250, 250) 0 (0, 0))
      = act_actions (Some 5) (Sprite_init (250, 250) 0 (0, 0))
   \<and> key_controls {K_UP, K_RIGHT} 1 (Sprite_init (250, 250) 0 (0, 0))
      \<noteq> act_actions (Some 4) (Sprite_init (250, 250) 0 (0, 0))
   \<and> act_actions_deltas 5 = (acceleration, - steering)
   \<and> act_actions_deltas 5 \<noteq> (acceleration, steering)"
  by (simp add: key_controls_def act_actions_def deltas_table steer_def movement_def
        Sprite_init_def acceleration_def steering_def MAX_VELOCITY_def MIN_VELOCITY_def)

text \<open>
  Claim C8. For every action id outside the decode table and every sprite whose velocity is
  within bounds, \<open>act_actions\<close> computes a zero motion delta and a zero steering delta and
  returns the sprite as it was: velocity and rotation are unchanged. The function has no
  failing branch.
\<close>

theorem out_of_table_action_is_noop:
  "\<not> in_decode_table a \<Longrightarrow> velocity_in_bounds s \<Longrightarrow>
     act_actions_deltas a = (0, 0) \<and> act_actions (Some a) s = s
     \<and> velocity (act_actions (Some a) s) = velocity s
     \<and> rotation (act_actions (Some a) s) = rotation s"
  by (simp add: deltas_outside act_actions_def movement_zero)

theorem out_of_table_action_is_noop_witness:
  "\<not> in_decode_table 8 \<and> \<not> in_decode_table (- 1)
   \<and> velocity_in_bounds (Sprite_init (250, 250) 0 (0, 0))
   \<and> act_actions_deltas 8 = (0, 0)
   \<and> act_actions (Some 8) (Sprite_init (250, 250) 0 (0, 0)) = Sprite_init (250, 250) 0 (0, 0)
   \<and> act_actions (Some (- 1)) (Sprite_init (250, 250) 0 (0, 0))
       = Sprite_init (250, 250) 0 (0, 0)"
proof -
  have a: "\<not> in_decode_table 8" by (simp add: in_decode_table_def)
  have a': "\<not> in_decode_table (- 1)" by (simp add: in_decode_table_def)
  have b: "velocity_in_bounds (Sprite_init (250, 250) 0 (0, 0))"
    by (rule Sprite_init_in_bounds)
  show ?thesis
    using a a' b out_of_table_action_is_noop [OF a b] out_of_table_action_is_noop [OF a' b]
    by simp
qed

text \<open>
  Claim C4, as amended. Every action id that passes validation against the racing
  environment's declared size (4) is in the decode table, but not conversely: the declared
  size admits exactly the ids 0 to 3, while the decode table holds exactly the ids 0 to 7.
  The baseline variant's declared size is 2.
\<close>

theorem declared_action_space:
  "(valid_action_id Env_ENV_ACTION_SPACE a \<longrightarrow> in_decode_table a)
   \<and> (in_decode_table a \<longleftrightarrow> 0 \<le> a \<and> a \<le> 7)
   \<and> (valid_action_id Env_ENV_ACTION_SPACE a \<longleftrightarrow> 0 \<le> a \<and> a \<le> 3)
   \<and> Env_ENV_ACTION_SPACE = 4 \<and> Baseline_ENV_ACTION_SPACE = 2"
  by (auto simp add: in_decode_table_range valid_action_id_def Env_ENV_ACTION_SPACE_def
        Baseline_ENV_ACTION_SPACE_def)

theorem declared_action_space_witness:
  "valid_action_id Env_ENV_ACTION_SPACE 2 \<and> in_decode_table 2"
proof -
  have v: "valid_action_id Env_ENV_ACTION_SPACE 2"
    by (simp add: valid_action_id_def Env_ENV_ACTION_SPACE_def)
  with declared_action_space [of 2] show ?thesis by blast
qed

text \<open>
  Claim C4 as stated fails at id 4: the decode table holds it (accelerate with
  \<open>+steering\<close>), and validation against the declared size rejects it.
\<close>

theorem declared_action_space_counterexample:
  "in_decode_table 4 \<and> \<not> valid_action_id Env_ENV_ACTION_SPACE 4
   \<and> act_actions_deltas 4 = (acceleration, steering)"
  by (simp add: in_decode_table_def valid_action_id_def Env_ENV_ACTION_SPACE_def deltas_table)

section \<open>The observation crop\<close>

lemma snapshot_pair:
  "fst (create_snapshot surf (Some sz) (Some c) fn fm False True True True True)
     = Pair (Raw_image_tensor \<lparr>pixels = surf, crop_box = Some (crop_region sz c), mode = L\<rparr>
               Unsqueezed True)
            \<lparr>pixels = surf, crop_box = Some (crop_region sz c), mode = L\<rparr>"
  by (simp add: create_snapshot_def Let_def)

lemma crop_region_upper_left:
  "crop_region sz c = (l, u, r, lo) \<Longrightarrow> 0 \<le> l \<and> 0 \<le> u \<and> r = l + fst sz \<and> lo = u + snd sz"
  by (auto simp add: crop_region_def Let_def)

text \<open>
  Claim C2, evaluated where it fails. With the frame size \<open>(84, 84)\<close> and the sprite at
  \<open>(490, 490)\<close>, inside the canvas, the anchored position is \<open>(477.5, 477.5)\<close> and the box
  handed to the crop is \<open>(435, 435, 519, 519)\<close>: it passes the right and the lower edge of
  the 500 by 500 canvas, and the state operation returns the frame cropped to that box. Only
  the upper left corner is clamped.
\<close>

theorem crop_leaves_canvas:
  "crop_region (84, 84) (477.5, 477.5) = (435, 435, 519, 519)
   \<and> \<not> within_canvas (crop_region (84, 84) (477.5, 477.5))
   \<and> fst (Env_state sample_ops True True
            (Env_init (84, 84) True True
               \<lparr>sprite = Sprite_init (490, 490) 0 (0, 0), world = True\<rparr> 0))
       = Inr (Some (Raw_image_tensor
                      \<lparr>pixels = [], crop_box = Some (435, 435, 519, 519), mode = L\<rparr>
                      Unsqueezed True),
              Some \<lparr>pixels = [], crop_box = Some (435, 435, 519, 519), mode = L\<rparr>,
              Some \<lparr>alive = True, progress = 0, lap = 0\<rparr>)"
proof -
  have box: "crop_region (84, 84) (955 / 2, 955 / 2) = (435, 435, 519, 519)"
    by (simp add: crop_region_def astype_int_def Let_def)
  have out: "\<not> within_canvas (435, 435, 519, 519)"
    by (simp add: within_canvas_def SIZE_def)
  have pos: "get_position (Sprite_init (490, 490) 0 (0, 0)) = (955 / 2, 955 / 2)"
    by (simp add: get_position_def Sprite_init_def SPRITE_SIZE_def vadd_def vsub_def)
  have st: "fst (Env_state sample_ops True True
            (Env_init (84, 84) True True
               \<lparr>sprite = Sprite_init (490, 490) 0 (0, 0), world = True\<rparr> 0))
       = Inr (Some (Raw_image_tensor
                      \<lparr>pixels = [], crop_box = Some (435, 435, 519, 519), mode = L\<rparr>
                      Unsqueezed True),
              Some \<lparr>pixels = [], crop_box = Some (435, 435, 519, 519), mode = L\<rparr>,
              Some \<lparr>alive = True, progress = 0, lap = 0\<rparr>)"
    by (simp add: Env_state_def Env_init_def snapshot_pair pos box sample_ops_def Let_def)
  from box out st show ?thesis by simp
qed

section \<open>The state operation and the done flag\<close>

lemma Env_state_not_done_no_params:
  "\<not> env_done e \<Longrightarrow> Env_state ops fa False e = (Inl TypeError, e)"
  by (simp add: Env_state_def snapshot_pair Let_def)

lemma Env_state_done:
  "env_done e \<Longrightarrow> snd (Env_state ops fa pa e) = e \<and> \<not> isl (fst (Env_state ops fa pa e))"
  by (simp add: Env_state_def snapshot_pair Let_def)

lemma Env_state_dead:
  "\<not> alive (get_params_op ops (track e)) \<Longrightarrow> env_done (snd (Env_state ops fa True e))"
  by (simp add: Env_state_def snapshot_pair Let_def)

text \<open>
  Claim C1, evaluated where it fails. On a freshly constructed racing environment (its done
  flag is false), the state operation called with \<open>frame_active\<close> true and
  \<open>params_active\<close> false raises TypeError: the image is captured, then the absent telemetry
  is subscripted. No observation is returned.
\<close>

theorem state_frame_only_raises:
  "Env_state sample_ops True False (Env_init (84, 84) True True (sample_track True) 0)
     = (Inl TypeError, Env_init (84, 84) True True (sample_track True) 0)"
proof -
  have "\<not> env_done (Env_init (84, 84) True True (sample_track True) 0)"
    by (simp add: Env_init_def)
  then show ?thesis by (rule Env_state_not_done_no_params)
qed

lemma handle_event_done: "env_done (handle_event ops e ev) = env_done e"
  by (cases ev) (simp_all add: create_snapshot_def Let_def)

lemma foldl_handle_event_done: "env_done (foldl (handle_event ops) e evs) = env_done e"
  by (induction evs arbitrary: e) (simp_all add: handle_event_done)

lemma event_handler_done: "env_done (event_handler ops inp e) = env_done e"
  by (simp add: event_handler_def Let_def foldl_handle_event_done)

lemma Env_step_done: "env_done (snd (Env_step ops a sync inp e)) = env_done e"
  by (auto simp add: Env_step_def Let_def event_handler_done split: option.splits sum.splits)

lemma Env_reset_done: "env_done (snd (Env_reset ops rr hr e)) = env_done e"
  by (simp add: Env_reset_def)

lemma env_apply_done: "env_done e \<Longrightarrow> env_done (env_apply ops c e)"
  by (cases c) (simp_all add: Env_state_done Env_step_done Env_reset_done)

lemma env_run_done: "env_done e \<Longrightarrow> env_done (env_run ops cs e)"
  by (induction cs arbitrary: e) (simp_all add: env_apply_done)

text \<open>
  Claim C3, as amended. Once a state call that pulls telemetry has seen \<open>alive = false\<close>,
  the done flag is true and stays true after every later run of state, step and reset calls;
  whenever the flag is true it is still true after an explicit reset, which only delegates
  to the track, and a state call made while it is true raises no error.
\<close>

theorem done_stays_set:
  "(\<not> alive (get_params_op ops (track e)) \<longrightarrow>
      env_done (env_run ops cs (snd (Env_state ops fa True e))))
   \<and> (env_done e \<longrightarrow>
        env_done (env_run ops cs e)
        \<and> env_done (snd (Env_reset ops rr hr e))
        \<and> \<not> isl (fst (Env_state ops fa pa e)))"
  by (simp add: env_run_done Env_state_dead Env_reset_done Env_state_done)

theorem done_stays_set_witness:
  "\<not> alive (get_params_op sample_ops
              (track (Env_init (84, 84) True True (sample_track False) 0)))
   \<and> env_done (env_run sample_ops
        [Call_step (Some 0) False (no_input 5), Call_reset False False, Call_state True False]
        (snd (Env_state sample_ops False True
               (Env_init (84, 84) True True (sample_track False) 0))))"
proof -
  have h: "\<not> alive (get_params_op sample_ops
              (track (Env_init (84, 84) True True (sample_track False) 0)))"
    by (simp add: sample_ops_def Env_init_def sample_track_def)
  with done_stays_set [of sample_ops "Env_init (84, 84) True True (sample_track False) 0"
      "[Call_step (Some 0) False (no_input 5), Call_reset False False, Call_state True False]"
      False]
  show ?thesis by blast
qed

text \<open>
  Claim C3 as stated fails: after telemetry has reported \<open>alive = false\<close> and an explicit
  reset has revived the track, the done flag of the environment is still true.
\<close>

theorem reset_keeps_done_counterexample:
  "env_done (snd (Env_reset sample_ops False False
      (snd (Env_state sample_ops False True
              (Env_init (84, 84) True True (sample_track False) 0)))))
   \<and> alive (get_params_op sample_ops (track (snd (Env_reset sample_ops False False
      (snd (Env_state sample_ops False True
              (Env_init (84, 84) True True (sample_track False) 0)))))))"
  by (simp add: Env_reset_def Env_state_def Env_init_def sample_ops_def sample_track_def Let_def)

section \<open>The attenuation factor\<close>

lemma handle_event_timing:
  "attenuation (handle_event ops e ev) = attenuation e
   \<and> prev_time (handle_event ops e ev) = prev_time e
   \<and> frame_buffer (handle_event ops e ev) = frame_buffer e"
  by (cases ev) (simp_all add: create_snapshot_def Let_def)

lemma foldl_handle_event_timing:
  "attenuation (foldl (handle_event ops) e evs) = attenuation e
   \<and> prev_time (foldl (handle_event ops) e evs) = prev_time e
   \<and> frame_buffer (foldl (handle_event ops) e evs) = frame_buffer e"
  by (induction evs arbitrary: e) (simp_all add: handle_event_timing)

lemma event_handler_timing:
  "attenuation (event_handler ops inp e) = attenuation e
   \<and> prev_time (event_handler ops inp e) = prev_time e
   \<and> frame_buffer (event_handler ops inp e) = frame_buffer e"
  by (simp add: event_handler_def Let_def foldl_handle_event_timing)

lemma Env_step_no_sync_attenuation:
  "attenuation (snd (Env_step ops a False inp e)) = attenuation e
   \<and> prev_time (snd (Env_step ops a False inp e)) = prev_time e"
  by (auto simp add: Env_step_def Let_def event_handler_timing split: option.splits sum.splits)

lemma Env_step_no_clock_attenuation:
  "prev_time e = None \<Longrightarrow>
     attenuation (snd (Env_step ops a sync inp e)) = attenuation e
     \<and> prev_time (snd (Env_step ops a sync inp e)) = None"
  by (auto simp add: Env_step_def Let_def event_handler_timing split: option.splits sum.splits)

lemma Env_step_sync_attenuation:
  "prev_time e = Some p \<Longrightarrow>
     attenuation (snd (Env_step ops None True inp e))
       = real_of_int (ticks inp - p) / (1000 / FPS_CAP)
     \<and> fst (Env_step ops None True inp e) = Inr (None, False)
     \<and> prev_time (snd (Env_step ops None True inp e)) = Some (ticks inp)"
  by (auto simp add: Env_step_def Let_def event_handler_timing split: option.splits sum.splits)

lemma Env_step_sync_any_action:
  "prev_time e = Some p \<Longrightarrow>
     attenuation (snd (Env_step ops a True inp e))
       = (if isl (fst (Env_step ops a True inp e)) then attenuation e
          else real_of_int (ticks inp - p) / (1000 / FPS_CAP))"
  by (auto simp add: Env_step_def Let_def event_handler_timing split: option.splits sum.splits)

lemma Env_state_timing:
  "attenuation (snd (Env_state ops fa pa e)) = attenuation e
   \<and> prev_time (snd (Env_state ops fa pa e)) = prev_time e"
  by (simp add: Env_state_def snapshot_pair Let_def split: option.splits)

lemma env_apply_no_clock:
  "prev_time e = None \<Longrightarrow>
     prev_time (env_apply ops c e) = None \<and> attenuation (env_apply ops c e) = attenuation e"
  by (cases c) (simp_all add: Env_state_timing Env_step_no_clock_attenuation Env_reset_def)

lemma env_run_no_clock:
  "prev_time e = None \<Longrightarrow> attenuation (env_run ops cs e) = attenuation e"
proof (induction cs arbitrary: e)
  case Nil
  then show ?case by simp
next
  case (Cons c cs)
  from Cons.prems have "prev_time (env_apply ops c e) = None"
    and "attenuation (env_apply ops c e) = attenuation e"
    by (simp_all add: env_apply_no_clock)
  with Cons.IH [of "env_apply ops c e"] show ?case by simp
qed

text \<open>
  Claim C5, as amended. The attenuation is 1 after construction; in an environment
  constructed with the agent active it is 1 after every run of calls; a step without sync
  leaves it as it was. In timed mode a synced step that completes (one with no action always
  does) sets it to the milliseconds elapsed since the previous timestamp divided by the
  nominal frame duration \<open>1000 / FPS_CAP\<close>, and one that raises leaves it as it was. The
  new value is strictly positive exactly when the millisecond counter has advanced, and
  non-negative exactly when the counter has not gone back. It is 0 when the counter reads the
  same millisecond as the previous timestamp.
\<close>

theorem attenuation_of_steps:
  "attenuation (Env_init fs fb ag t0 now) = 1
   \<and> attenuation (env_run ops cs (Env_init fs fb True t0 now)) = 1
   \<and> attenuation (snd (Env_step ops a False inp e)) = attenuation e
   \<and> (prev_time e = Some p \<longrightarrow>
        attenuation (snd (Env_step ops a True inp e))
          = (if isl (fst (Env_step ops a True inp e)) then attenuation e
             else real_of_int (ticks inp - p) / (1000 / FPS_CAP))
        \<and> attenuation (snd (Env_step ops None True inp e))
          = real_of_int (ticks inp - p) / (1000 / FPS_CAP)
        \<and> (0 < attenuation (snd (Env_step ops None True inp e)) \<longleftrightarrow> p < ticks inp)
        \<and> (0 \<le> attenuation (snd (Env_step ops None True inp e)) \<longleftrightarrow> p \<le> ticks inp))"
proof -
  have i: "attenuation (Env_init fs fb ag t0 now) = 1"
    by (simp add: Env_init_def)
  have "prev_time (Env_init fs fb True t0 now) = None"
    by (simp add: Env_init_def)
  then have r: "attenuation (env_run ops cs (Env_init fs fb True t0 now)) = 1"
    by (simp add: env_run_no_clock Env_init_def)
  have s: "prev_time e = Some p \<longrightarrow>
        attenuation (snd (Env_step ops None True inp e))
          = real_of_int (ticks inp - p) / (1000 / FPS_CAP)
        \<and> (0 < attenuation (snd (Env_step ops None True inp e)) \<longleftrightarrow> p < ticks inp)
        \<and> (0 \<le> attenuation (snd (Env_step ops None True inp e)) \<longleftrightarrow> p \<le> ticks inp)"
    by (simp add: Env_step_sync_attenuation FPS_CAP_def zero_less_divide_iff
          zero_le_divide_iff)
  have g: "prev_time e = Some p \<longrightarrow>
        attenuation (snd (Env_step ops a True inp e))
          = (if isl (fst (Env_step ops a True inp e)) then attenuation e
             else real_of_int (ticks inp - p) / (1000 / FPS_CAP))"
    using Env_step_sync_any_action [of e p ops a inp] by blast
  from i r s g show ?thesis
    by (simp only: Env_step_no_sync_attenuation simp_thms) blast
qed

theorem attenuation_of_steps_witness:
  "prev_time (Env_init (84, 84) False False (sample_track True) 100) = Some 100
   \<and> attenuation (snd (Env_step sample_ops None True (no_input 125)
                         (Env_init (84, 84) False False (sample_track True) 100))) = 3 / 2
   \<and> 0 < attenuation (snd (Env_step sample_ops None True (no_input 125)
                             (Env_init (84, 84) False False (sample_track True) 100)))"
proof -
  have h: "prev_time (Env_init (84, 84) False False (sample_track True) 100) = Some 100"
    by (simp add: Env_init_def)
  have t: "ticks (no_input 125) = 125"
    by (simp add: no_input_def)
  from attenuation_of_steps [of "(84, 84)" False False "sample_track True" 100 sample_ops "[]"
         None "no_input 125" "Env_init (84, 84) False False (sample_track True) 100" 100] h t
  show ?thesis by (simp add: FPS_CAP_def)
qed

text \<open>
  Claim C5 as stated fails: a synced step whose millisecond counter reads the value recorded
  at construction leaves the attenuation at 0, which is not strictly positive.
\<close>

theorem attenuation_zero_counterexample:
  "attenuation (snd (Env_step sample_ops None True (no_input 0)
                       (Env_init (84, 84) True False (sample_track True) 0))) = 0"
  by (simp add: Env_step_sync_attenuation Env_init_def no_input_def)

section \<open>A step without an action\<close>

lemma handle_event_act_action_irrelevant:
  "handle_event (ops\<lparr>act_action_op := f\<rparr>) e ev = handle_event ops e ev"
  by (cases ev) simp_all

lemma event_handler_act_action_irrelevant:
  "event_handler (ops\<lparr>act_action_op := f\<rparr>) inp e = event_handler ops inp e"
proof -
  have "handle_event (ops\<lparr>act_action_op := f\<rparr>) = handle_event ops"
    by (intro ext) (rule handle_event_act_action_irrelevant)
  then show ?thesis by (simp add: event_handler_def)
qed

lemma Env_step_None:
  "Env_step ops None sync inp e =
    (let e1 = event_handler ops inp e;
         t = act_op ops (attenuation e1) (track e1);
         e5 = e1\<lparr>surface := surface e1 @ [Fill CLEAR_SCREEN, Render t], track := t\<rparr>;
         e6 = (if \<not> frame_buffer e1 then e5\<lparr>displayed := surface e5\<rparr> else e5)
     in if sync then
          (case prev_time e1 of
             None \<Rightarrow> (Inl AttributeError, e6\<lparr>curr_time := Some (ticks inp)\<rparr>)
           | Some p \<Rightarrow> (Inr (None, False),
                e6\<lparr>curr_time := Some (ticks inp),
                    attenuation := real_of_int (ticks inp - p) / (1000 / FPS_CAP),
                    prev_time := Some (ticks inp)\<rparr>))
        else (Inr (None, False), e6))"
  by (simp add: Env_step_def Let_def split: option.splits)

text \<open>
  Claim C6, as amended. In the racing environment a step with the action absent still runs
  the event handler, clears the surface, advances the track by the current attenuation and
  renders it; the sprite's action operation plays no part in the result, and the step
  returns \<open>(None, False)\<close> unless sync is requested in an environment that has no clock.
  In the baseline environment a step with the action absent returns \<open>(None, False)\<close> and
  leaves the environment, and with it the wrapped simulator, exactly as it was: nothing is
  advanced or rendered.
\<close>

theorem step_without_action:
  "track (snd (Env_step ops None sync inp e))
      = act_op ops (attenuation e) (track (event_handler ops inp e))
   \<and> surface (snd (Env_step ops None sync inp e))
      = surface (event_handler ops inp e)
        @ [Fill CLEAR_SCREEN,
           Render (act_op ops (attenuation e) (track (event_handler ops inp e)))]
   \<and> Env_step (ops\<lparr>act_action_op := f\<rparr>) None sync inp e = Env_step ops None sync inp e
   \<and> (\<not> sync \<or> prev_time e \<noteq> None \<longrightarrow>
        fst (Env_step ops None sync inp e) = Inr (None, False))
   \<and> Baseline_step g None sync device b = (Inr (None, False), b)"
proof -
  have a: "Env_step (ops\<lparr>act_action_op := f\<rparr>) None sync inp e = Env_step ops None sync inp e"
    by (simp add: Env_step_def event_handler_act_action_irrelevant)
  have b: "Baseline_step g None sync device b = (Inr (None, False), b)"
    by (simp add: Baseline_step_def)
  have c: "track (snd (Env_step ops None sync inp e))
      = act_op ops (attenuation e) (track (event_handler ops inp e))"
    by (simp add: Env_step_None Let_def event_handler_timing split: option.splits)
  have d: "surface (snd (Env_step ops None sync inp e))
      = surface (event_handler ops inp e)
        @ [Fill CLEAR_SCREEN,
           Render (act_op ops (attenuation e) (track (event_handler ops inp e)))]"
    by (simp add: Env_step_None Let_def event_handler_timing split: option.splits)
  have e: "\<not> sync \<or> prev_time e \<noteq> None \<longrightarrow>
        fst (Env_step ops None sync inp e) = Inr (None, False)"
    by (auto simp add: Env_step_None Let_def event_handler_timing split: option.splits)
  from a b c d e show ?thesis by simp
qed

theorem step_without_action_witness:
  "fst (Env_step sample_ops None False (no_input 0)
          (Env_init (84, 84) True True (sample_track True) 0)) = Inr (None, False)
   \<and> surface (snd (Env_step sample_ops None False (no_input 0)
                     (Env_init (84, 84) True True (sample_track True) 0)))
       = [Fill CLEAR_SCREEN, Render (sample_track True)]
   \<and> track (snd (Env_step sample_ops None False (no_input 0)
                     (Env_init (84, 84) True True (sample_track True) 0)))
       = sample_track True
   \<and> Baseline_step counting_sim None False None (Baseline_init counting_sim (84, 84) 0)
       = (Inr (None, False), Baseline_init counting_sim (84, 84) 0)"
proof -
  have eh: "event_handler sample_ops (no_input 0)
              (Env_init (84, 84) True True (sample_track True) 0)
            = Env_init (84, 84) True True (sample_track True) 0"
    by (simp add: event_handler_def Env_init_def)
  have tr: "act_op sample_ops 1 (sample_track True) = sample_track True"
    by (simp add: sample_ops_def sample_track_def act_def Sprite_init_def vadd_def vscale_def)
  have at: "attenuation (Env_init (84, 84) True True (sample_track True) 0) = 1"
    and tk: "track (Env_init (84, 84) True True (sample_track True) 0) = sample_track True"
    and sf: "surface (Env_init (84, 84) True True (sample_track True) 0) = []"
    by (simp_all add: Env_init_def)
  from step_without_action [of sample_ops False "no_input 0"
         "Env_init (84, 84) True True (sample_track True) 0" "act_action_op sample_ops"
         counting_sim None "Baseline_init counting_sim (84, 84) 0"]
  show ?thesis
    by (simp add: eh at tk sf tr)
qed

text \<open>
  Claim C6 as stated fails for the baseline variant: on a simulator that counts its steps, a
  step with the action absent leaves the count at 0, where a step with an action brings it
  to 1.
\<close>

theorem baseline_step_without_action_counterexample:
  "bl_env (snd (Baseline_step counting_sim None False None
                  (Baseline_init counting_sim (84, 84) 0))) = 0
   \<and> bl_env (snd (Baseline_step counting_sim (Some 1) False None
                    (Baseline_init counting_sim (84, 84) 0))) = 1"
  by (simp add: Baseline_step_def Baseline_init_def counting_sim_def)

section \<open>The state operation of the baseline\<close>

text \<open>
  Claim C10. The state operation of the baseline environment does not depend on
  \<open>frame_active\<close> and \<open>params_active\<close>: with any flags it gives what it gives with both
  false. It leaves the environment, and so its done flag, as it was. Whenever the wrapped
  simulator's \<open>x_threshold\<close> is not zero (the division in \<open>get_cart_location\<close> is
  defined), it returns a frame made from the rendering of the simulator's current state,
  resized to the configured frame size, with the image and the telemetry absent.
\<close>

theorem baseline_state_ignores_flags:
  "Baseline_state g fa pa b = Baseline_state g False False b
   \<and> snd (Baseline_state g fa pa b) = b
   \<and> bl_done (snd (Baseline_state g fa pa b)) = bl_done b
   \<and> (gym_x_threshold g (bl_env b) \<noteq> 0 \<longrightarrow>
        (\<exists>fr. fst (Baseline_state g fa pa b) = Inr (Some fr, None, None)
              \<and> rendered fr = bl_env b \<and> resized_to fr = bl_frame_size b))"
  by (simp add: Baseline_state_def get_cart_location_def Let_def)

theorem baseline_state_ignores_flags_witness:
  "gym_x_threshold counting_sim (bl_env (Baseline_init counting_sim (84, 84) 0)) \<noteq> 0
   \<and> Baseline_state counting_sim True True (Baseline_init counting_sim (84, 84) 0)
       = Baseline_state counting_sim False False (Baseline_init counting_sim (84, 84) 0)
   \<and> Baseline_state counting_sim False False (Baseline_init counting_sim (84, 84) 0)
       = (Inr (Some \<lparr>rendered = 0, rows = Slice (Some 160) (Some 320),
                     cols = Slice (Some 140) (Some 460), resized_to = (84, 84)\<rparr>,
               None, None),
          Baseline_init counting_sim (84, 84) 0)"
proof -
  have h: "gym_x_threshold counting_sim (bl_env (Baseline_init counting_sim (84, 84) 0)) \<noteq> 0"
    by (simp add: counting_sim_def)
  have v: "Baseline_state counting_sim False False (Baseline_init counting_sim (84, 84) 0)
       = (Inr (Some \<lparr>rendered = 0, rows = Slice (Some 160) (Some 320),
                     cols = Slice (Some 140) (Some 460), resized_to = (84, 84)\<rparr>,
               None, None),
          Baseline_init counting_sim (84, 84) 0)"
    by (simp add: Baseline_state_def get_cart_location_def Let_def Baseline_init_def
          counting_sim_def screen_width_def astype_int_def)
  from baseline_state_ignores_flags [of counting_sim True True
         "Baseline_init counting_sim (84, 84) 0"] h v
  show ?thesis by simp
qed

end
